theory Spec2Isabelle
  imports Main "HOL-Library.Word" "HOL-Library.DAList"
begin

section \<open>Go values\<close>

text \<open>
  A Go \<open>string\<close> is a byte sequence: \<open>string\<close> (a \<open>char list\<close>) here.
  \<open>int64\<close>, \<open>int32\<close>, \<open>uint64\<close> and \<open>uint32\<close> are words of their width; \<open>int\<close> is
  the 64-bit word of the 64-bit targets. Arithmetic on them wraps.
\<close>

type_synonym go_int = "64 word"
type_synonym int64 = "64 word"
type_synonym int32 = "32 word"
type_synonym uint64 = "64 word"
type_synonym uint32 = "32 word"

section \<open>The library functions the package calls\<close>

text \<open>
  The package is a thin layer over the Go standard library: \<open>strconv\<close>,
  \<open>path/filepath\<close>, \<open>strings\<close>, \<open>runtime\<close>, \<open>time\<close>, \<open>text/template\<close> and
  \<open>encoding/json\<close>. The library is not part of the repository. Its pure string
  functions are written out here after their documentation and their code; the
  runtime, the clock and the template engine are parameters of the model.
\<close>

subsection \<open>strconv: decimal formatting\<close>

text \<open>
  \<open>strconv.FormatInt\<close> and \<open>strconv.FormatUint\<close> share \<open>formatBits(dst, u, base, neg)\<close>:
  a negative value is negated as an unsigned word (so the least \<open>int64\<close> becomes \<open>2^63\<close>),
  its digits are taken from the table \<open>digits\<close> and a minus sign is put in front. Only
  base 10 is used by the package; \<open>formatDecimal\<close> is the digit loop for that base (the
  library takes two digits in one step, which gives the same string).
\<close>

definition digits :: string where
  "digits = ''0123456789abcdefghijklmnopqrstuvwxyz''"

function formatDecimal :: "nat \<Rightarrow> string" where
  "formatDecimal n =
     (if n < 10 then [digits ! n]
      else formatDecimal (n div 10) @ [digits ! (n mod 10)])"
  by pat_completeness auto
termination
  by (relation "measure id") auto

declare formatDecimal.simps [simp del]

definition formatBits :: "uint64 \<Rightarrow> bool \<Rightarrow> string" where
  "formatBits u neg =
     (let u' = (if neg then - u else u)
      in (if neg then ''-'' else '''') @ formatDecimal (unat u'))"

definition FormatInt :: "int64 \<Rightarrow> string" where
  "FormatInt i = formatBits i (sint i < 0)"

definition FormatUint :: "uint64 \<Rightarrow> string" where
  "FormatUint i = formatBits i False"

definition Itoa :: "go_int \<Rightarrow> string" where
  "Itoa i = FormatInt i"

subsection \<open>strconv: decimal parsing\<close>

text \<open>
  The inverse direction, \<open>strconv.ParseUint(s, 10, bitSize)\<close> and
  \<open>strconv.ParseInt(s, 10, bitSize)\<close>: the package never parses, the round trip of the
  scalar formatters is stated against these. The accumulator is a \<open>nat\<close>, and the overflow
  tests of the library (\<open>n >= cutoff\<close>, \<open>n1 < n\<close>, \<open>n1 > maxVal\<close>) are the one comparison
  with \<open>maxVal\<close> that they amount to.
\<close>

datatype NumError = ErrSyntax | ErrRange | ErrBitSize

fun parseUintLoop :: "nat \<Rightarrow> string \<Rightarrow> nat \<Rightarrow> NumError + nat" where
  "parseUintLoop maxVal [] n = Inr n"
| "parseUintLoop maxVal (c # cs) n =
     (if (48::nat) \<le> of_char c \<and> of_char c \<le> (57::nat)
      then (let n1 = n * 10 + (of_char c - 48)
            in if n1 > maxVal then Inl ErrRange else parseUintLoop maxVal cs n1)
      else Inl ErrSyntax)"

definition ParseUint :: "string \<Rightarrow> nat \<Rightarrow> NumError + uint64" where
  "ParseUint s bitSize =
     (if s = [] then Inl ErrSyntax
      else if bitSize > 64 then Inl ErrBitSize
      else (let bits = (if bitSize = 0 then 64 else bitSize)
            in case parseUintLoop (2 ^ bits - 1) s 0 of
                 Inl e \<Rightarrow> Inl e
               | Inr n \<Rightarrow> Inr (of_nat n)))"

definition ParseInt :: "string \<Rightarrow> nat \<Rightarrow> NumError + int64" where
  "ParseInt s0 bitSize =
     (if s0 = [] then Inl ErrSyntax
      else (let neg = (hd s0 = CHR ''-'');
                s = (if hd s0 = CHR ''+'' \<or> hd s0 = CHR ''-'' then tl s0 else s0)
            in case ParseUint s bitSize of
                 Inl e \<Rightarrow> Inl e
               | Inr un \<Rightarrow>
                   (let bits = (if bitSize = 0 then 64 else bitSize);
                        cutoff = (2::nat) ^ (bits - 1)
                    in if \<not> neg \<and> unat un \<ge> cutoff then Inl ErrRange
                       else if neg \<and> unat un > cutoff then Inl ErrRange
                       else Inr (if neg then - un else un))))"

subsection \<open>path/filepath and strings\<close>

text \<open>
  \<open>filepath.Base\<close> and \<open>filepath.Ext\<close> with the separator \<open>/\<close> (there is no volume name
  then), and \<open>strings.TrimLeft\<close> for a cutset of ASCII bytes. \<open>Base\<close> strips trailing
  separators and keeps what follows the last remaining one; \<open>Ext\<close> scans from the end of
  the path for a dot and stops at a separator.
\<close>

definition IsPathSeparator :: "char \<Rightarrow> bool" where
  "IsPathSeparator c \<longleftrightarrow> c = CHR ''/''"

definition Base :: "string \<Rightarrow> string" where
  "Base path0 =
     (if path0 = [] then ''.''
      else (let path = rev (dropWhile IsPathSeparator (rev path0));
                path = rev (takeWhile (\<lambda>c. \<not> IsPathSeparator c) (rev path))
            in if path = [] then ''/'' else path))"

text \<open>
  \<open>extLoop\<close> is the loop of \<open>Ext\<close>: its first argument is what lies before index \<open>i\<close>,
  last byte first, its second argument is \<open>path[i+1:]\<close>.
\<close>

fun extLoop :: "string \<Rightarrow> string \<Rightarrow> string" where
  "extLoop [] suffix = []"
| "extLoop (c # before) suffix =
     (if IsPathSeparator c then []
      else if c = CHR ''.'' then c # suffix
      else extLoop before (c # suffix))"

definition Ext :: "string \<Rightarrow> string" where
  "Ext path = extLoop (rev path) []"

definition TrimLeft :: "string \<Rightarrow> string \<Rightarrow> string" where
  "TrimLeft s cutset = dropWhile (\<lambda>c. c \<in> set cutset) s"

subsection \<open>runtime and time\<close>

text \<open>
  What the runtime answers during one call: \<open>Caller skip\<close> is the result of
  \<open>runtime.Caller(skip)\<close> asked from inside \<open>GetStackInfo\<close> (program counter, file, line;
  \<open>None\<close> when \<open>ok\<close> is false), \<open>FuncForPC pc\<close> is the name of the function found for a
  program counter (\<open>None\<close> when it is \<open>nil\<close>), and \<open>Now\<close> is
  \<open>time.Now().Format(time.RFC3339Nano)\<close>.
\<close>

record runtime =
  Caller :: "go_int \<Rightarrow> (nat \<times> string \<times> go_int) option"
  FuncForPC :: "nat \<Rightarrow> string option"
  Now :: string

subsection \<open>text/template\<close>

type_synonym Args = "(string, string) alist"

text \<open>
  \<open>Args\<close> is \<open>map[string]string\<close>: an association list with distinct keys, read with
  \<open>DAList.lookup\<close>, assigned with \<open>DAList.update\<close>, ranged over through its entries.

  The template engine is a parameter: \<open>Parse s\<close> is \<open>template.New("").Parse(s)\<close> and
  \<open>Execute t args\<close> is \<open>t.Execute(&buf, args)\<close>; each gives the text of its error on the
  left, and \<open>Execute\<close> gives the contents of the buffer on the right.
\<close>

record 't engine =
  Parse :: "string \<Rightarrow> string + 't"
  Execute :: "'t \<Rightarrow> Args \<Rightarrow> string + string"

subsection \<open>The placeholders of text/template\<close>

text \<open>
  The part of the template language that the statements below need: literal text and
  actions \<open>{{.name}}\<close>, with the default delimiters. \<open>lexText\<close> finds the first left
  delimiter; \<open>parseAction\<close> reads one action after it: spaces, a dot followed by a name
  of letters, digits and underscores that does not start with a digit, spaces, and the
  right delimiter. An action that ends with the input is the parse error
  \<open>unclosed action\<close> and an empty action is \<open>missing value for command\<close>, as in the
  library; every other action is outside this part of the language and
  \<open>placeholderEngine\<close> rejects it. Executing a field of a \<open>map[string]string\<close> writes the
  value of the key, or \<open><no value>\<close> when the map has no such key.
\<close>

datatype Node = TextNode string | FieldNode string

definition isSpace :: "char \<Rightarrow> bool" where
  "isSpace c \<longleftrightarrow> c = CHR '' '' \<or> c = CHR 0x09 \<or> c = CHR 0x0D \<or> c = CHR 0x0A"

definition isDigit :: "char \<Rightarrow> bool" where
  "isDigit c \<longleftrightarrow> (48::nat) \<le> of_char c \<and> of_char c \<le> (57::nat)"

definition isAlphaNumeric :: "char \<Rightarrow> bool" where
  "isAlphaNumeric c \<longleftrightarrow>
     c = CHR ''_'' \<or> isDigit c
     \<or> ((65::nat) \<le> of_char c \<and> of_char c \<le> (90::nat))
     \<or> ((97::nat) \<le> of_char c \<and> of_char c \<le> (122::nat))"

fun lexText :: "string \<Rightarrow> string \<times> string option" where
  "lexText [] = ([], None)"
| "lexText [c] = ([c], None)"
| "lexText (c # d # cs) =
     (if c = CHR ''{'' \<and> d = CHR ''{'' then ([], Some cs)
      else (case lexText (d # cs) of (text, rest) \<Rightarrow> (c # text, rest)))"

definition unclosedAction :: string where
  "unclosedAction = ''template: :1: unclosed action''"

definition missingValue :: string where
  "missingValue = ''template: :1: missing value for command''"

definition notAPlaceholder :: string where
  "notAPlaceholder = ''template: :1: action is not a placeholder''"

definition parseAction :: "string \<Rightarrow> string + (string \<times> string)" where
  "parseAction s =
     (case dropWhile isSpace s of
        [] \<Rightarrow> Inl unclosedAction
      | c # cs \<Rightarrow>
          if c = CHR ''.'' then
            (let name = takeWhile isAlphaNumeric cs;
                 after = dropWhile isSpace (dropWhile isAlphaNumeric cs)
             in if name = [] \<or> isDigit (hd name) then
                  (if after = [] then Inl unclosedAction else Inl notAPlaceholder)
                else
                  (case after of
                     [] \<Rightarrow> Inl unclosedAction
                   | [x] \<Rightarrow> Inl (if x = CHR ''}'' then unclosedAction else notAPlaceholder)
                   | x # y # rest \<Rightarrow>
                       if x = CHR ''}'' \<and> y = CHR ''}'' then Inr (name, rest)
                       else Inl notAPlaceholder))
          else if c = CHR ''}'' \<and> take 1 cs = ''}'' then Inl missingValue
          else Inl notAPlaceholder)"

definition textNode :: "string \<Rightarrow> Node list" where
  "textNode text = (if text = [] then [] else [TextNode text])"

function parseTemplate :: "string \<Rightarrow> string + Node list" where
  "parseTemplate s =
     (case lexText s of
        (text, None) \<Rightarrow> Inr (textNode text)
      | (text, Some rest) \<Rightarrow>
          (case parseAction rest of
             Inl e \<Rightarrow> Inl e
           | Inr (name, rest') \<Rightarrow>
               (case parseTemplate rest' of
                  Inl e \<Rightarrow> Inl e
                | Inr nodes \<Rightarrow> Inr (textNode text @ FieldNode name # nodes))))"
  by pat_completeness auto
termination
  apply (relation "measure length")
   apply simp
  apply auto
  subgoal premises prems for s lit rest name rest'
  proof -
    have lex: "lexText s = (lit, Some rest)" using prems(1) by simp
    have act: "parseAction rest = Inr (name, rest')" by (rule prems(2))
    have l1: "length r < length u" if "lexText u = (t, Some r)" for u t r
      using that
    proof (induction u arbitrary: t rule: lexText.induct)
      case (3 c d cs)
      then show ?case by (auto split: if_splits prod.splits)
    qed simp_all
    have drop_le: "length (dropWhile P xs) \<le> length xs" for P and xs :: string
      by (rule length_dropWhile_le)
    obtain c cs where d: "dropWhile isSpace rest = c # cs"
      using act by (cases "dropWhile isSpace rest") (auto simp: parseAction_def)
    have le1: "length (c # cs) \<le> length rest"
      using drop_le[of isSpace rest] d by simp
    obtain x z where a: "dropWhile isSpace (dropWhile isAlphaNumeric cs) = x # z # rest'"
      using act d
      by (auto simp: parseAction_def Let_def split: if_splits list.splits)
    have "length (x # z # rest') \<le> length cs"
      using drop_le[of isSpace "dropWhile isAlphaNumeric cs"] drop_le[of isAlphaNumeric cs] a
      by simp
    then have "length rest' \<le> length rest" using le1 by simp
    moreover have "length rest < length s" using l1 lex by simp
    ultimately show ?thesis by simp
  qed
  done

declare parseTemplate.simps [simp del]

fun evalNode :: "Args \<Rightarrow> Node \<Rightarrow> string" where
  "evalNode args (TextNode text) = text"
| "evalNode args (FieldNode name) =
     (case DAList.lookup args name of Some v \<Rightarrow> v | None \<Rightarrow> ''<no value>'')"

definition executeTemplate :: "Node list \<Rightarrow> Args \<Rightarrow> string + string" where
  "executeTemplate nodes args = Inr (concat (map (evalNode args) nodes))"

definition placeholderEngine :: "Node list engine" where
  "placeholderEngine = \<lparr>Parse = parseTemplate, Execute = executeTemplate\<rparr>"






section \<open>The package\<close>

subsection \<open>State\<close>

record Logger =
  Level :: string
  IsFatal :: bool

record Encoder =
  escapeHTML :: bool
  indentPrefix :: string
  indentValue :: string

text \<open>
  The package variables, the objects they point to, the maps of the callers and the
  standard output. A \<open>*Logger\<close> is an index into \<open>loggerHeap\<close> (\<open>None\<close> is \<open>nil\<close>), an
  \<open>Args\<close> value is an address in \<open>argsHeap\<close> (\<open>None\<close> is the \<open>nil\<close> map): a Go map is a
  reference, and an assignment to it is seen by everyone who holds it. \<open>stdout\<close> holds the
  objects that \<open>jsonWriter\<close> has written, one per line; their JSON text is not modelled.
\<close>

record world =
  loggerHeap :: "Logger list"
  argsHeap :: "nat \<Rightarrow> Args"
  stdout :: "Args list"
  jsonWriter :: "Encoder option"
  traceLogger :: "nat option"
  debugLogger :: "nat option"
  infoLogger :: "nat option"
  warnLogger :: "nat option"
  errorLogger :: "nat option"
  fatalLogger :: "nat option"
  loggerExeName :: string

datatype panic = PanicValue string | NilDereference | IndexOutOfRange

datatype outcome = Returned | Panicked panic

text \<open>The package variables before \<open>init\<close>: every one has the zero value of its type.\<close>

definition zeroWorld :: "(nat \<Rightarrow> Args) \<Rightarrow> world" where
  "zeroWorld heap =
     \<lparr>loggerHeap = [], argsHeap = heap, stdout = [], jsonWriter = None,
      traceLogger = None, debugLogger = None, infoLogger = None, warnLogger = None,
      errorLogger = None, fatalLogger = None, loggerExeName = []\<rparr>"

text \<open>\<open>&Logger{...}\<close>: a new object, at an address no other object has.\<close>

definition newLogger :: "Logger \<Rightarrow> world \<Rightarrow> nat option \<times> world" where
  "newLogger l w = (Some (length (loggerHeap w)), w\<lparr>loggerHeap := loggerHeap w @ [l]\<rparr>)"

definition deref :: "world \<Rightarrow> nat option \<Rightarrow> Logger option" where
  "deref w p =
     (case p of
        None \<Rightarrow> None
      | Some a \<Rightarrow> if a < length (loggerHeap w) then Some (loggerHeap w ! a) else None)"

text \<open>\<open>args[k] = v\<close> on the map at address \<open>a\<close>.\<close>

definition assign :: "nat \<Rightarrow> string \<Rightarrow> string \<Rightarrow> world \<Rightarrow> world" where
  "assign a k v w = w\<lparr>argsHeap := (argsHeap w)(a := DAList.update k v (argsHeap w a))\<rparr>"

text \<open>The entries a \<open>range\<close> over the map visits; none for the \<open>nil\<close> map.\<close>

definition entries :: "world \<Rightarrow> nat option \<Rightarrow> (string \<times> string) list" where
  "entries w args = (case args of None \<Rightarrow> [] | Some a \<Rightarrow> DAList.impl_of (argsHeap w a))"

text \<open>A map literal \<open>Args{k1: v1, ...}\<close>.\<close>

definition mapLiteral :: "(string \<times> string) list \<Rightarrow> Args" where
  "mapLiteral kvs = fold (\<lambda>(k, v). DAList.update k v) kvs DAList.empty"

subsection \<open>\<open>init\<close> and the level accessors\<close>

definition init :: "string list \<Rightarrow> world \<Rightarrow> panic + world" where
  "init osArgs w0 =
     (let w = w0\<lparr>jsonWriter := Some \<lparr>escapeHTML = True, indentPrefix = [], indentValue = []\<rparr>\<rparr>;
          w = w\<lparr>jsonWriter := map_option (\<lambda>e. e\<lparr>escapeHTML := False\<rparr>) (jsonWriter w)\<rparr>;
          w = w\<lparr>jsonWriter :=
                 map_option (\<lambda>e. e\<lparr>indentPrefix := [], indentValue := []\<rparr>) (jsonWriter w)\<rparr>;
          (p, w) = newLogger \<lparr>Level = ''trace'', IsFatal = False\<rparr> w;
          w = w\<lparr>traceLogger := p\<rparr>;
          (p, w) = newLogger \<lparr>Level = ''debug'', IsFatal = False\<rparr> w;
          w = w\<lparr>debugLogger := p\<rparr>;
          (p, w) = newLogger \<lparr>Level = ''info'', IsFatal = False\<rparr> w;
          w = w\<lparr>infoLogger := p\<rparr>;
          (p, w) = newLogger \<lparr>Level = ''warn'', IsFatal = False\<rparr> w;
          w = w\<lparr>warnLogger := p\<rparr>;
          (p, w) = newLogger \<lparr>Level = ''error'', IsFatal = False\<rparr> w;
          w = w\<lparr>errorLogger := p\<rparr>;
          (p, w) = newLogger \<lparr>Level = ''fatal'', IsFatal = True\<rparr> w;
          w = w\<lparr>fatalLogger := p\<rparr>
      in case osArgs of
           [] \<Rightarrow> Inl IndexOutOfRange
         | arg0 # _ \<Rightarrow> Inr (w\<lparr>loggerExeName := Base arg0\<rparr>))"

definition Trace :: "world \<Rightarrow> nat option" where
  "Trace w = traceLogger w"

definition Debug :: "world \<Rightarrow> nat option" where
  "Debug w = debugLogger w"

definition Info :: "world \<Rightarrow> nat option" where
  "Info w = infoLogger w"

definition Warn :: "world \<Rightarrow> nat option" where
  "Warn w = warnLogger w"

definition Error :: "world \<Rightarrow> nat option" where
  "Error w = errorLogger w"

definition Fatal :: "world \<Rightarrow> nat option" where
  "Fatal w = fatalLogger w"

subsection \<open>Scalar formatters\<close>

text \<open>\<open>Int\<close> of the package; the name is taken by set intersection here.\<close>

definition Int_go :: "go_int \<Rightarrow> string" where
  "Int_go i = Itoa i"

definition Int64 :: "int64 \<Rightarrow> string" where
  "Int64 i = FormatInt i"

definition Int32 :: "int32 \<Rightarrow> string" where
  "Int32 i = FormatInt (scast i)"

definition Uint32 :: "uint32 \<Rightarrow> string" where
  "Uint32 i = FormatUint (ucast i)"

definition Uint64 :: "uint64 \<Rightarrow> string" where
  "Uint64 i = FormatUint i"

subsection \<open>\<open>GetStackInfo\<close>\<close>

definition GetStackInfo :: "runtime \<Rightarrow> go_int \<Rightarrow> string \<times> string \<times> string" where
  "GetStackInfo rt stackDepth =
     (let resultFile = ''?'';
          resultFunc = ''?()'';
          resultLine = ''0''
      in case Caller rt (stackDepth + 1) of
           None \<Rightarrow> (resultFile, resultFunc, resultLine)
         | Some (pc, file, line) \<Rightarrow>
             (let resultFile = Base file;
                  resultLine = Int_go line
              in case FuncForPC rt pc of
                   None \<Rightarrow> (resultFile, resultFunc, resultLine)
                 | Some name \<Rightarrow>
                     (let dotName = Ext name;
                          resultFunc = TrimLeft dotName ''.'' @ ''()''
                      in (resultFile, resultFunc, resultLine))))"

subsection \<open>\<open>logGenericArgs\<close> and the four methods\<close>

text \<open>
  \<open>error\<close> values are given by the text their \<open>Error\<close> method returns; \<open>None\<close> is the
  \<open>nil\<close> error.

  \<open>renderMsg\<close> is the first block of \<open>logGenericArgs\<close> (the \<open>if args != nil\<close>): it gives
  \<open>msg\<close> and the state, in which the map of the caller holds \<open>_templateErr\<close> after a
  failure. \<open>buildFullArgs\<close> is the second block: the literal, the loop over \<open>args\<close> and
  the \<open>error\<close> entry.
\<close>

definition renderMsg :: "'t engine \<Rightarrow> world \<Rightarrow> string \<Rightarrow> nat option \<Rightarrow> world \<times> string" where
  "renderMsg eng w msgTemplate args =
     (let msg = msgTemplate
      in case args of
           None \<Rightarrow> (w, msg)
         | Some a \<Rightarrow>
             (case Parse eng msgTemplate of
                Inl templateErr \<Rightarrow> (assign a ''_templateErr'' templateErr w, msg)
              | Inr t \<Rightarrow>
                  (case Execute eng t (argsHeap w a) of
                     Inl templateErr \<Rightarrow> (assign a ''_templateErr'' templateErr w, msg)
                   | Inr buf \<Rightarrow> (w, buf))))"

definition buildFullArgs ::
  "runtime \<Rightarrow> world \<Rightarrow> Logger \<Rightarrow> string \<Rightarrow> string \<Rightarrow> string \<times> string \<times> string \<Rightarrow>
   string option \<Rightarrow> nat option \<Rightarrow> Args" where
  "buildFullArgs rt w logger msgTemplate msg info err args =
     (let (file, function, line) = info;
          fullArgs = mapLiteral
            [(''msgTemplate'', msgTemplate),
             (''msg'', msg),
             (''time'', Now rt),
             (''level'', Level logger),
             (''file'', file),
             (''func'', function),
             (''line'', line),
             (''process'', loggerExeName w)];
          fullArgs = fold (\<lambda>(k, v). DAList.update (''arg_'' @ k) v) (entries w args) fullArgs
      in case err of
           None \<Rightarrow> fullArgs
         | Some e \<Rightarrow> DAList.update ''error'' e fullArgs)"

text \<open>\<open>jsonWriter.Encode(v)\<close>: one object more on the standard output.\<close>

definition Encode :: "Args \<Rightarrow> world \<Rightarrow> world option" where
  "Encode v w =
     (case jsonWriter w of
        None \<Rightarrow> None
      | Some enc \<Rightarrow> Some (w\<lparr>stdout := stdout w @ [v]\<rparr>))"

definition logGenericArgs ::
  "runtime \<Rightarrow> 't engine \<Rightarrow> world \<Rightarrow> nat option \<Rightarrow> string \<Rightarrow> string option \<Rightarrow>
   nat option \<Rightarrow> go_int \<Rightarrow> world \<times> outcome" where
  "logGenericArgs rt eng w0 logger msgTemplate err args stackDepth =
     (let info = GetStackInfo rt (stackDepth + 1);
          (w, msg) = renderMsg eng w0 msgTemplate args
      in case deref w logger of
           None \<Rightarrow> (w, Panicked NilDereference)
         | Some l \<Rightarrow>
             (let fullArgs = buildFullArgs rt w l msgTemplate msg info err args
              in case Encode fullArgs w of
                   None \<Rightarrow> (w, Panicked NilDereference)
                 | Some w' \<Rightarrow>
                     if IsFatal l then (w', Panicked (PanicValue msg)) else (w', Returned)))"

definition Log :: "runtime \<Rightarrow> 't engine \<Rightarrow> world \<Rightarrow> nat option \<Rightarrow> string \<Rightarrow> world \<times> outcome" where
  "Log rt eng w logger msg = logGenericArgs rt eng w logger msg None None 1"

definition LogArgs ::
  "runtime \<Rightarrow> 't engine \<Rightarrow> world \<Rightarrow> nat option \<Rightarrow> string \<Rightarrow> nat option \<Rightarrow> world \<times> outcome" where
  "LogArgs rt eng w logger msgTemplate args =
     logGenericArgs rt eng w logger msgTemplate None args 1"

definition LogErr ::
  "runtime \<Rightarrow> 't engine \<Rightarrow> world \<Rightarrow> nat option \<Rightarrow> string \<Rightarrow> string option \<Rightarrow> world \<times> outcome" where
  "LogErr rt eng w logger msg err = logGenericArgs rt eng w logger msg err None 1"

definition LogErrArgs ::
  "runtime \<Rightarrow> 't engine \<Rightarrow> world \<Rightarrow> nat option \<Rightarrow> string \<Rightarrow> string option \<Rightarrow>
   nat option \<Rightarrow> world \<times> outcome" where
  "LogErrArgs rt eng w logger msgTemplate err args =
     logGenericArgs rt eng w logger msgTemplate err args 1"

section \<open>Names used by the statements\<close>

text \<open>
  The keys that \<open>logGenericArgs\<close> writes itself: the eight of the literal and \<open>error\<close>.
\<close>

definition fixedFields :: "string list" where
  "fixedFields =
     [''msgTemplate'', ''msg'', ''time'', ''level'', ''file'', ''func'', ''line'', ''process'',
      ''error'']"

text \<open>
  The error of parsing or of executing a template against a map, if there is one: the
  \<open>templateErr\<close> that \<open>logGenericArgs\<close> meets.
\<close>

definition templateErr :: "'t engine \<Rightarrow> string \<Rightarrow> Args \<Rightarrow> string option" where
  "templateErr eng msgTemplate args =
     (case Parse eng msgTemplate of
        Inl e \<Rightarrow> Some e
      | Inr t \<Rightarrow> (case Execute eng t args of Inl e \<Rightarrow> Some e | Inr buf \<Rightarrow> None))"

section \<open>A process to run the package in\<close>

text \<open>
  A runtime whose stack, seen from \<open>GetStackInfo\<close>, is \<open>GetStackInfo\<close>, \<open>logGenericArgs\<close>,
  \<open>Log\<close> and the function \<open>main.ServeGrpc\<close> of the user at line 59 of \<open>main.go\<close>; a program
  counter is the index of its frame. The state is the one \<open>init\<close> leaves; two maps of
  the user live at the addresses 0 and 1.
\<close>

definition demoFrames :: "(string \<times> string \<times> go_int) list" where
  "demoFrames =
     [(''/go/src/app/logging/logging.go'', ''app/logging.GetStackInfo'', 130),
      (''/go/src/app/logging/logging.go'', ''app/logging.(*Logger).logGenericArgs'', 74),
      (''/go/src/app/logging/logging.go'', ''app/logging.(*Logger).Log'', 50),
      (''/go/src/app/main.go'', ''main.ServeGrpc'', 59)]"

definition demoRuntime :: runtime where
  "demoRuntime =
     \<lparr>Caller = (\<lambda>skip. if unat skip < length demoFrames
                        then (case demoFrames ! unat skip of
                                (file, name, line) \<Rightarrow> Some (unat skip, file, line))
                        else None),
      FuncForPC = (\<lambda>pc. if pc < length demoFrames
                          then (case demoFrames ! pc of (file, name, line) \<Rightarrow> Some name)
                          else None),
      Now = ''2006-01-02T15:04:05.123456789-07:00''\<rparr>"

definition demoHeap :: "nat \<Rightarrow> Args" where
  "demoHeap =
     (\<lambda>a. DAList.empty)
       (0 := DAList.update ''count'' ''3'' (DAList.update ''user'' ''alice'' DAList.empty),
        1 := DAList.update ''msg'' ''shadow'' DAList.empty)"

definition demoWorld :: world where
  "demoWorld =
     (case init [''/usr/local/bin/sms-auth-service''] (zeroWorld demoHeap) of
        Inl p \<Rightarrow> zeroWorld demoHeap
      | Inr w \<Rightarrow> w)"

section \<open>Properties of the scalar formatters\<close>

subsection \<open>The digit loops\<close>

lemma digit_val: "d < 10 \<Longrightarrow> of_char (digits ! d) = (48::nat) + d"
proof -
  assume "d < 10"
  then have "d \<in> {0,1,2,3,4,5,6,7,8,9}" by auto
  then show ?thesis by (auto simp: digits_def)
qed

lemma parseUintLoop_snoc:
  "parseUintLoop M (xs @ [c]) acc =
     (case parseUintLoop M xs acc of Inl e \<Rightarrow> Inl e | Inr m \<Rightarrow> parseUintLoop M [c] m)"
  by (induction xs arbitrary: acc) (auto simp: Let_def)

lemma parse_formatDecimal: "n \<le> M \<Longrightarrow> parseUintLoop M (formatDecimal n) 0 = Inr n"
proof (induction n rule: formatDecimal.induct)
  case (1 n)
  show ?case
  proof (cases "n < 10")
    case True
    then show ?thesis using 1(2) by (subst formatDecimal.simps) (simp add: digit_val)
  next
    case False
    have le: "n div 10 \<le> M" using 1(2) by linarith
    have "parseUintLoop M (formatDecimal (n div 10)) 0 = Inr (n div 10)"
      using 1(1)[OF False le] .
    then show ?thesis using False 1(2)
      by (subst formatDecimal.simps) (simp add: parseUintLoop_snoc digit_val)
  qed
qed

lemma formatDecimal_hd: "formatDecimal n \<noteq> [] \<and> 48 \<le> (of_char (hd (formatDecimal n)) :: nat)"
proof (induction n rule: formatDecimal.induct)
  case (1 n)
  show ?case
  proof (cases "n < 10")
    case True
    then show ?thesis by (subst formatDecimal.simps, subst (2) formatDecimal.simps) (simp add: digit_val)
  next
    case False
    then show ?thesis using 1[OF False] by (subst formatDecimal.simps, subst (2) formatDecimal.simps) (simp)
  qed
qed

lemma formatDecimal_no_sign:
  "formatDecimal n \<noteq> []" "hd (formatDecimal n) \<noteq> CHR ''-''" "hd (formatDecimal n) \<noteq> CHR ''+''"
proof -
  show "formatDecimal n \<noteq> []" using formatDecimal_hd by blast
  have h: "48 \<le> (of_char (hd (formatDecimal n)) :: nat)" using formatDecimal_hd by blast
  show "hd (formatDecimal n) \<noteq> CHR ''-''"
  proof
    assume "hd (formatDecimal n) = CHR ''-''"
    with h show False by simp
  qed
  show "hd (formatDecimal n) \<noteq> CHR ''+''"
  proof
    assume "hd (formatDecimal n) = CHR ''+''"
    with h show False by simp
  qed
qed

lemma ParseUint_formatDecimal:
  assumes "0 < bits" "bits \<le> 64" "n < 2 ^ bits"
  shows "ParseUint (formatDecimal n) bits = Inr (of_nat n)"
proof -
  have "n \<le> 2 ^ bits - 1" using assms(3) by simp
  then have "parseUintLoop (2 ^ bits - 1) (formatDecimal n) 0 = Inr n"
    by (rule parse_formatDecimal)
  then show ?thesis using assms(1,2) formatDecimal_no_sign(1)[of n]
    by (simp add: ParseUint_def)
qed

subsection \<open>Signed and unsigned readings of a word\<close>

lemma unat_neg_of_sint:
  fixes w :: "'a::len word"
  assumes "sint w < 0"
  shows "int (unat (- w)) = - sint w"
proof -
  have b: "- (2 ^ (LENGTH('a) - 1)) \<le> sint w" by (rule sint_ge)
  have "(2::int) ^ (LENGTH('a) - 1) < 2 ^ LENGTH('a)" by (simp add: power_strict_increasing)
  then have lt: "- sint w < 2 ^ LENGTH('a)" using b by linarith
  have "- w = word_of_int (- sint w)" by simp
  then have "uint (- w) = take_bit LENGTH('a) (- sint w)"
    by (metis uint_word_of_int_eq)
  also have "\<dots> = - sint w" using assms lt by (simp add: take_bit_int_eq_self)
  finally show ?thesis by simp
qed

lemma unat_of_sint_nonneg:
  fixes w :: "'a::len word"
  assumes "0 \<le> sint w"
  shows "int (unat w) = sint w"
proof -
  have "sint w < 2 ^ (LENGTH('a) - 1)" by (rule sint_lt)
  moreover have "(2::int) ^ (LENGTH('a) - 1) < 2 ^ LENGTH('a)" by (simp add: power_strict_increasing)
  ultimately have lt: "sint w < 2 ^ LENGTH('a)" by linarith
  have "uint w = take_bit LENGTH('a) (sint w)" by (rule uint_sint)
  also have "\<dots> = sint w" using assms lt by (simp add: take_bit_int_eq_self)
  finally show ?thesis by simp
qed

lemma unat_ucast32: "unat (ucast (k :: 32 word) :: 64 word) = unat k"
proof -
  have "unat k < 2 ^ 32" using unsigned_less [of k, where ?'a = nat] by simp
  then have "unat k < 2 ^ 64" by (rule less_trans) simp
  then show ?thesis by (simp add: unsigned_ucast_eq take_bit_nat_eq_self)
qed

subsection \<open>Formatting, then parsing\<close>

lemma ParseInt_FormatInt:
  fixes w :: int64
  assumes bits: "0 < bits" "bits \<le> 64"
    and lo: "- (2 ^ (bits - 1)) \<le> sint w" and hi: "sint w < 2 ^ (bits - 1)"
  shows "ParseInt (FormatInt w) bits = Inr w"
proof (cases "sint w < 0")
  case True
  define n where "n = unat (- w)"
  have n_int: "int n = - sint w" unfolding n_def using True by (rule unat_neg_of_sint)
  have "int n \<le> 2 ^ (bits - 1)" using n_int lo by linarith
  then have n_le: "n \<le> 2 ^ (bits - 1)" by (metis of_nat_le_iff of_nat_numeral of_nat_power)
  have "(2::nat) ^ (bits - 1) < 2 ^ bits" using bits(1) by (simp add: power_strict_increasing)
  with n_le have n_lt: "n < 2 ^ bits" by linarith
  have pu: "ParseUint (formatDecimal n) bits = Inr (of_nat n)"
    using bits n_lt by (rule ParseUint_formatDecimal)
  have un: "(of_nat n :: uint64) = - w" by (simp add: n_def)
  have fmt: "FormatInt w = CHR ''-'' # formatDecimal n"
    using True by (simp add: FormatInt_def formatBits_def n_def)
  show ?thesis
    using pu un n_le bits(1) by (simp add: fmt ParseInt_def Let_def n_def[symmetric])
next
  case False
  define n where "n = unat w"
  have "0 \<le> sint w" using False by simp
  then have n_int: "int n = sint w" unfolding n_def by (rule unat_of_sint_nonneg)
  have "int n < 2 ^ (bits - 1)" using n_int hi by linarith
  then have n_lt': "n < 2 ^ (bits - 1)" by (metis of_nat_less_iff of_nat_numeral of_nat_power)
  have "(2::nat) ^ (bits - 1) < 2 ^ bits" using bits(1) by (simp add: power_strict_increasing)
  with n_lt' have n_lt: "n < 2 ^ bits" by linarith
  have pu: "ParseUint (formatDecimal n) bits = Inr (of_nat n)"
    using bits n_lt by (rule ParseUint_formatDecimal)
  have un: "(of_nat n :: uint64) = w" by (simp add: n_def)
  have fmt: "FormatInt w = formatDecimal n"
    using False by (simp add: FormatInt_def formatBits_def n_def)
  show ?thesis
    using pu un n_lt' bits(1) formatDecimal_no_sign[of n]
    by (simp add: fmt ParseInt_def Let_def n_def[symmetric])
qed

lemma ParseInt64_FormatInt: "ParseInt (FormatInt (w :: int64)) 64 = Inr w"
proof -
  have "- (2 ^ (64 - 1)) \<le> sint w" using sint_ge[of w] by simp
  moreover have "sint w < 2 ^ (64 - 1)" using sint_lt[of w] by simp
  ultimately show ?thesis using ParseInt_FormatInt[of 64 w] by simp
qed

lemma ParseInt_bitSize0: "ParseInt s 0 = ParseInt s 64"
  by (simp add: ParseInt_def ParseUint_def Let_def)

lemma ParseIntSize_FormatInt: "ParseInt (FormatInt (w :: int64)) 0 = Inr w"
  by (simp only: ParseInt_bitSize0 ParseInt64_FormatInt)

lemma ParseInt32_FormatInt: "ParseInt (FormatInt (scast (k :: int32))) 32 = Inr (scast k)"
proof -
  have s: "sint (scast k :: int64) = sint k" by (simp add: sint_up_scast is_up)
  have "- (2 ^ (32 - 1)) \<le> sint k" using sint_ge[of k] by simp
  moreover have "sint k < 2 ^ (32 - 1)" using sint_lt[of k] by simp
  ultimately show ?thesis using ParseInt_FormatInt[of 32 "scast k"] by (simp add: s)
qed

lemma ParseUint64_FormatUint: "ParseUint (FormatUint (v :: uint64)) 64 = Inr v"
proof -
  have "unat v < 2 ^ 64" using unsigned_less [of v, where ?'a = nat] by simp
  then have "ParseUint (formatDecimal (unat v)) 64 = Inr (of_nat (unat v))"
    by (intro ParseUint_formatDecimal) simp_all
  then show ?thesis by (simp add: FormatUint_def formatBits_def)
qed

lemma ParseUint32_FormatUint: "ParseUint (FormatUint (ucast (u :: uint32))) 32 = Inr (ucast u)"
proof -
  have "unat u < 2 ^ 32" using unsigned_less [of u, where ?'a = nat] by simp
  then have "ParseUint (formatDecimal (unat u)) 32 = Inr (of_nat (unat u))"
    by (intro ParseUint_formatDecimal) simp_all
  then show ?thesis by (simp add: FormatUint_def formatBits_def unat_ucast32)
qed

lemma scalar_format_extremes:
  "Int64 (- 9223372036854775808) = ''-9223372036854775808''
   \<and> Int64 9223372036854775807 = ''9223372036854775807''
   \<and> Int32 (- 2147483648) = ''-2147483648''
   \<and> Uint32 4294967295 = ''4294967295''
   \<and> Uint64 18446744073709551615 = ''18446744073709551615''"
  by (simp add: Int64_def Int32_def Uint32_def Uint64_def FormatInt_def FormatUint_def
      formatBits_def formatDecimal.simps digits_def)

text \<open>
  C9: for every value of each supported integer width (\<open>int\<close>, \<open>int32\<close>, \<open>int64\<close>,
  \<open>uint32\<close>, \<open>uint64\<close>), the greatest and the least included, formatting the value to its
  decimal string and parsing that string back (with \<open>strconv.ParseInt\<close> or
  \<open>strconv.ParseUint\<close> at the bit size of the type, then converting to the type) gives
  the value again.
\<close>

theorem scalar_format_parse_roundtrip:
  "ParseInt (Int_go i) 0 = Inr i
   \<and> ParseInt (Int64 j) 64 = Inr j
   \<and> ParseInt (Int32 k) 32 = Inr (scast k) \<and> (scast (scast k :: int64) :: int32) = k
   \<and> ParseUint (Uint32 u) 32 = Inr (ucast u) \<and> (ucast (ucast u :: uint64) :: uint32) = u
   \<and> ParseUint (Uint64 v) 64 = Inr v"
  by (simp add: Int_go_def Itoa_def Int64_def Int32_def Uint32_def Uint64_def
      ParseIntSize_FormatInt ParseInt64_FormatInt ParseInt32_FormatInt
      ParseUint32_FormatUint ParseUint64_FormatUint scast_up_scast_id ucast_up_ucast_id is_up)

section \<open>Properties of the template engine for placeholders\<close>



lemma lexText_delim: "lexText (CHR ''{'' # CHR ''{'' # s) = ([], Some s)"
  by simp








section \<open>Properties of the stack inspector\<close>





section \<open>Properties of \<open>init\<close> and \<open>logGenericArgs\<close>\<close>

subsection \<open>What a call leaves unchanged\<close>

lemma init_eq:
  "init (arg0 # rest) (zeroWorld heap) = Inr
     \<lparr>loggerHeap =
        [\<lparr>Level = ''trace'', IsFatal = False\<rparr>, \<lparr>Level = ''debug'', IsFatal = False\<rparr>,
         \<lparr>Level = ''info'', IsFatal = False\<rparr>, \<lparr>Level = ''warn'', IsFatal = False\<rparr>,
         \<lparr>Level = ''error'', IsFatal = False\<rparr>, \<lparr>Level = ''fatal'', IsFatal = True\<rparr>],
      argsHeap = heap, stdout = [],
      jsonWriter = Some \<lparr>escapeHTML = False, indentPrefix = [], indentValue = []\<rparr>,
      traceLogger = Some 0, debugLogger = Some 1, infoLogger = Some 2, warnLogger = Some 3,
      errorLogger = Some 4, fatalLogger = Some 5, loggerExeName = Base arg0\<rparr>"
  by (simp add: init_def zeroWorld_def newLogger_def)

lemma init_no_args: "init [] w = Inl IndexOutOfRange"
  by (simp add: init_def Let_def case_prod_beta)

lemma renderMsg_frame:
  "loggerHeap (fst (renderMsg eng w tpl args)) = loggerHeap w"
  "stdout (fst (renderMsg eng w tpl args)) = stdout w"
  "jsonWriter (fst (renderMsg eng w tpl args)) = jsonWriter w"
  "loggerExeName (fst (renderMsg eng w tpl args)) = loggerExeName w"
  "traceLogger (fst (renderMsg eng w tpl args)) = traceLogger w"
  "debugLogger (fst (renderMsg eng w tpl args)) = debugLogger w"
  "infoLogger (fst (renderMsg eng w tpl args)) = infoLogger w"
  "warnLogger (fst (renderMsg eng w tpl args)) = warnLogger w"
  "errorLogger (fst (renderMsg eng w tpl args)) = errorLogger w"
  "fatalLogger (fst (renderMsg eng w tpl args)) = fatalLogger w"
  by (simp_all add: renderMsg_def assign_def split: option.splits sum.splits)

lemma deref_renderMsg: "deref (fst (renderMsg eng w tpl args)) p = deref w p"
  by (cases p) (simp_all add: deref_def renderMsg_frame)

lemma logGenericArgs_frame:
  "loggerHeap (fst (logGenericArgs rt eng v logger msgTemplate err args stackDepth)) = loggerHeap v"
  "traceLogger (fst (logGenericArgs rt eng v logger msgTemplate err args stackDepth)) = traceLogger v"
  "debugLogger (fst (logGenericArgs rt eng v logger msgTemplate err args stackDepth)) = debugLogger v"
  "infoLogger (fst (logGenericArgs rt eng v logger msgTemplate err args stackDepth)) = infoLogger v"
  "warnLogger (fst (logGenericArgs rt eng v logger msgTemplate err args stackDepth)) = warnLogger v"
  "errorLogger (fst (logGenericArgs rt eng v logger msgTemplate err args stackDepth)) = errorLogger v"
  "fatalLogger (fst (logGenericArgs rt eng v logger msgTemplate err args stackDepth)) = fatalLogger v"
  by (auto simp: logGenericArgs_def Let_def case_prod_beta Encode_def renderMsg_frame
      split: option.splits)

lemma argsHeap_assign:
  "argsHeap (assign a k v w) = (argsHeap w)(a := DAList.update k v (argsHeap w a))"
  by (simp add: assign_def)

subsection \<open>The rendered message\<close>

lemma renderMsg_nil: "renderMsg eng w msgTemplate None = (w, msgTemplate)"
  by (simp add: renderMsg_def)

lemma renderMsg_failure:
  assumes "templateErr eng msgTemplate (argsHeap w a) = Some e"
  shows "renderMsg eng w msgTemplate (Some a) = (assign a ''_templateErr'' e w, msgTemplate)"
  using assms by (auto simp: renderMsg_def templateErr_def split: sum.splits)


lemma renderMsg_no_failure:
  assumes "templateErr eng msgTemplate (argsHeap w a) = None"
  shows "fst (renderMsg eng w msgTemplate (Some a)) = w"
  using assms by (simp add: renderMsg_def templateErr_def split: sum.splits)

lemma templateErr_parse: "Parse eng msgTemplate = Inl e \<Longrightarrow> templateErr eng msgTemplate args = Some e"
  by (simp add: templateErr_def)

subsection \<open>The fields of the record\<close>

lemma lookup_fold_other_gen:
  assumes "take (length p) f \<noteq> p"
  shows "DAList.lookup (fold (\<lambda>(k, v). DAList.update (p @ k) v) es m) f = DAList.lookup m f"
proof (induction es arbitrary: m)
  case Nil
  then show ?case by simp
next
  case (Cons e es)
  obtain k' v' where e: "e = (k', v')" by (cases e)
  have "p @ k' \<noteq> f" using assms by auto
  then show ?case using Cons.IH by (simp add: e)
qed

lemma lookup_fold_arg_gen:
  "distinct (map fst es) \<Longrightarrow>
   DAList.lookup (fold (\<lambda>(k, v). DAList.update (p @ k) v) es m) (p @ k) =
     (case map_of es k of Some v \<Rightarrow> Some v | None \<Rightarrow> DAList.lookup m (p @ k))"
proof (induction es arbitrary: m)
  case Nil
  then show ?case by simp
next
  case (Cons e es)
  obtain k' v' where e: "e = (k', v')" by (cases e)
  have d: "distinct (map fst es)" using Cons.prems by simp
  show ?case
  proof (cases "k' = k")
    case True
    then have "map_of es k = None" using Cons.prems e
      by (simp add: map_of_eq_None_iff)
    then show ?thesis using Cons.IH[OF d] e True by (simp add: DAList.lookup_update)
  next
    case False
    then show ?thesis using Cons.IH[OF d] e
      by (simp add: DAList.lookup_update split: option.splits)
  qed
qed

lemmas lookup_fold_other = lookup_fold_other_gen [where p = "''arg_''", simplified]

lemmas lookup_fold_arg = lookup_fold_arg_gen [where p = "''arg_''", simplified]

lemma map_of_entries:
  "map_of (entries w args) k = (case args of None \<Rightarrow> None | Some a \<Rightarrow> DAList.lookup (argsHeap w a) k)"
  by (simp add: entries_def DAList.lookup.rep_eq split: option.splits)

lemma distinct_entries: "distinct (map fst (entries w args))"
  by (cases args) (simp_all add: entries_def)

lemma lookup_buildFullArgs_arg:
  "DAList.lookup (buildFullArgs rt w l tpl msg info err args) (''arg_'' @ k) =
     (case args of None \<Rightarrow> None | Some a \<Rightarrow> DAList.lookup (argsHeap w a) k)"
proof -
  obtain fl fn ln where info: "info = (fl, fn, ln)" by (cases info)
  show ?thesis
    by (cases err)
      (simp_all add: buildFullArgs_def info lookup_fold_arg distinct_entries
        map_of_entries mapLiteral_def DAList.lookup_update split: option.splits)
qed

lemma lookup_buildFullArgs_fixed:
  "DAList.lookup (buildFullArgs rt w l tpl msg (file, fn, line) err args) ''msgTemplate'' = Some tpl"
  "DAList.lookup (buildFullArgs rt w l tpl msg (file, fn, line) err args) ''msg'' = Some msg"
  "DAList.lookup (buildFullArgs rt w l tpl msg (file, fn, line) err args) ''time'' = Some (Now rt)"
  "DAList.lookup (buildFullArgs rt w l tpl msg (file, fn, line) err args) ''level'' = Some (Level l)"
  "DAList.lookup (buildFullArgs rt w l tpl msg (file, fn, line) err args) ''file'' = Some file"
  "DAList.lookup (buildFullArgs rt w l tpl msg (file, fn, line) err args) ''func'' = Some fn"
  "DAList.lookup (buildFullArgs rt w l tpl msg (file, fn, line) err args) ''line'' = Some line"
  "DAList.lookup (buildFullArgs rt w l tpl msg (file, fn, line) err args) ''process'' = Some (loggerExeName w)"
  "DAList.lookup (buildFullArgs rt w l tpl msg (file, fn, line) err args) ''error'' = err"
  by (cases err; simp add: buildFullArgs_def lookup_fold_other mapLiteral_def
        DAList.lookup_update)+

lemma keys_buildFullArgs_nil:
  "map fst (DAList.impl_of (buildFullArgs rt w l msgTemplate msg (fl, fn, ln) err None)) =
     [''msgTemplate'', ''msg'', ''time'', ''level'', ''file'', ''func'', ''line'', ''process'']
       @ (case err of None \<Rightarrow> [] | Some e \<Rightarrow> [''error''])"
  by (cases err)
    (simp_all add: buildFullArgs_def mapLiteral_def entries_def DAList.update.rep_eq
      DAList.empty.rep_eq)

subsection \<open>One call\<close>

lemma logGenericArgs_ready:
  assumes "jsonWriter w0 = Some enc" and "deref w0 logger = Some l"
  shows "logGenericArgs rt eng w0 logger tpl err args d =
     (let w = fst (renderMsg eng w0 tpl args);
          msg = snd (renderMsg eng w0 tpl args);
          fullArgs = buildFullArgs rt w l tpl msg (GetStackInfo rt (d + 1)) err args
      in (w\<lparr>stdout := stdout w0 @ [fullArgs]\<rparr>,
          if IsFatal l then Panicked (PanicValue msg) else Returned))"
  using assms
  by (simp add: logGenericArgs_def Let_def Encode_def deref_renderMsg renderMsg_frame
      case_prod_beta)

lemma logGenericArgs_heap:
  assumes "jsonWriter w = Some enc" and "deref w logger = Some l"
  shows "argsHeap (fst (logGenericArgs rt eng w logger msgTemplate err args stackDepth)) =
     argsHeap (fst (renderMsg eng w msgTemplate args))"
  by (simp add: logGenericArgs_ready[OF assms] Let_def)

lemma logGenericArgs_record:
  assumes "jsonWriter w = Some enc" and "deref w logger = Some l"
    and "GetStackInfo rt (stackDepth + 1) = (fl, fn, ln)"
  shows "\<exists>w' fullArgs.
           logGenericArgs rt eng w logger msgTemplate err args stackDepth =
             (w', if IsFatal l then Panicked (PanicValue (snd (renderMsg eng w msgTemplate args)))
                  else Returned)
         \<and> stdout w' = stdout w @ [fullArgs]
         \<and> argsHeap w' = argsHeap (fst (renderMsg eng w msgTemplate args))
         \<and> DAList.lookup fullArgs ''msgTemplate'' = Some msgTemplate
         \<and> DAList.lookup fullArgs ''msg'' = Some (snd (renderMsg eng w msgTemplate args))
         \<and> DAList.lookup fullArgs ''time'' = Some (Now rt)
         \<and> DAList.lookup fullArgs ''level'' = Some (Level l)
         \<and> DAList.lookup fullArgs ''file'' = Some fl
         \<and> DAList.lookup fullArgs ''func'' = Some fn
         \<and> DAList.lookup fullArgs ''line'' = Some ln
         \<and> DAList.lookup fullArgs ''process'' = Some (loggerExeName w)
         \<and> DAList.lookup fullArgs ''error'' = err
         \<and> (\<forall>k. DAList.lookup fullArgs (''arg_'' @ k) =
                  (case args of None \<Rightarrow> None | Some a \<Rightarrow> DAList.lookup (argsHeap w' a) k))"
proof -
  define w1 where "w1 = fst (renderMsg eng w msgTemplate args)"
  define msg where "msg = snd (renderMsg eng w msgTemplate args)"
  define fullArgs where "fullArgs = buildFullArgs rt w1 l msgTemplate msg (fl, fn, ln) err args"
  define w' where "w' = w1\<lparr>stdout := stdout w @ [fullArgs]\<rparr>"
  have run: "logGenericArgs rt eng w logger msgTemplate err args stackDepth =
      (w', if IsFatal l then Panicked (PanicValue msg) else Returned)"
    by (simp add: logGenericArgs_ready[OF assms(1,2)] Let_def assms(3) w'_def fullArgs_def
        w1_def msg_def)
  have out: "stdout w' = stdout w @ [fullArgs]" by (simp add: w'_def)
  have heap: "argsHeap w' = argsHeap w1" by (simp add: w'_def)
  have exe: "loggerExeName w1 = loggerExeName w" by (simp add: w1_def renderMsg_frame)
  have dyn: "DAList.lookup fullArgs (''arg_'' @ k) =
      (case args of None \<Rightarrow> None | Some a \<Rightarrow> DAList.lookup (argsHeap w' a) k)" for k
    unfolding fullArgs_def heap by (rule lookup_buildFullArgs_arg)
  show ?thesis
    apply (rule exI[of _ w'])
    apply (rule exI[of _ fullArgs])
    apply (intro conjI allI)
                apply (simp add: run msg_def)
               apply (rule out)
              apply (simp add: heap w1_def)
             apply (simp add: fullArgs_def lookup_buildFullArgs_fixed)
            apply (simp add: fullArgs_def lookup_buildFullArgs_fixed msg_def)
           apply (simp add: fullArgs_def lookup_buildFullArgs_fixed)
          apply (simp add: fullArgs_def lookup_buildFullArgs_fixed)
         apply (simp add: fullArgs_def lookup_buildFullArgs_fixed)
        apply (simp add: fullArgs_def lookup_buildFullArgs_fixed)
       apply (simp add: fullArgs_def lookup_buildFullArgs_fixed)
      apply (simp add: fullArgs_def lookup_buildFullArgs_fixed exe)
     apply (simp add: fullArgs_def lookup_buildFullArgs_fixed)
    apply (rule dyn)
    done
qed

lemma logGenericArgs_nil:
  assumes "jsonWriter w = Some enc" and "deref w logger = Some l"
  shows "logGenericArgs rt eng w logger msg err None stackDepth =
     (w\<lparr>stdout := stdout w @
          [buildFullArgs rt w l msg msg (GetStackInfo rt (stackDepth + 1)) err None]\<rparr>,
      if IsFatal l then Panicked (PanicValue msg) else Returned)"
  by (simp add: logGenericArgs_ready[OF assms] renderMsg_nil)

lemma logGenericArgs_failure:
  assumes "jsonWriter w = Some enc" and "deref w logger = Some l"
    and fail: "templateErr eng msgTemplate (argsHeap w a) = Some e"
  shows "\<exists>w' fullArgs.
           logGenericArgs rt eng w logger msgTemplate err (Some a) stackDepth =
             (w', if IsFatal l then Panicked (PanicValue msgTemplate) else Returned)
         \<and> stdout w' = stdout w @ [fullArgs]
         \<and> argsHeap w' = (argsHeap w)(a := DAList.update ''_templateErr'' e (argsHeap w a))
         \<and> DAList.lookup fullArgs ''arg__templateErr'' = Some e
         \<and> DAList.lookup fullArgs ''_templateErr'' = None
         \<and> DAList.lookup fullArgs ''msg'' = Some msgTemplate
         \<and> DAList.lookup fullArgs ''msgTemplate'' = Some msgTemplate"
proof -
  obtain fl fn ln where info: "GetStackInfo rt (stackDepth + 1) = (fl, fn, ln)"
    by (cases "GetStackInfo rt (stackDepth + 1)")
  define w1 where "w1 = assign a ''_templateErr'' e w"
  define fullArgs where
    "fullArgs = buildFullArgs rt w1 l msgTemplate msgTemplate (fl, fn, ln) err (Some a)"
  define w' where "w' = w1\<lparr>stdout := stdout w @ [fullArgs]\<rparr>"
  have run: "logGenericArgs rt eng w logger msgTemplate err (Some a) stackDepth =
      (w', if IsFatal l then Panicked (PanicValue msgTemplate) else Returned)"
    by (simp add: logGenericArgs_ready[OF assms(1,2)] renderMsg_failure[OF fail] info w'_def
        fullArgs_def w1_def Let_def)
  have emitted: "stdout w' = stdout w @ [fullArgs]" by (simp add: w'_def)
  have heap: "argsHeap w' = (argsHeap w)(a := DAList.update ''_templateErr'' e (argsHeap w a))"
    by (simp add: w'_def w1_def argsHeap_assign)
  have "DAList.lookup fullArgs (''arg_'' @ ''_templateErr'') = DAList.lookup (argsHeap w1 a) ''_templateErr''"
    unfolding fullArgs_def by (simp only: lookup_buildFullArgs_arg option.case)
  then have field: "DAList.lookup fullArgs ''arg__templateErr'' = Some e"
    by (simp add: w1_def argsHeap_assign)
  have bare: "DAList.lookup fullArgs ''_templateErr'' = None"
    unfolding fullArgs_def
    by (cases err)
      (simp_all add: buildFullArgs_def lookup_fold_other mapLiteral_def DAList.lookup_update)
  have m: "DAList.lookup fullArgs ''msg'' = Some msgTemplate"
    unfolding fullArgs_def by (rule lookup_buildFullArgs_fixed)
  have t: "DAList.lookup fullArgs ''msgTemplate'' = Some msgTemplate"
    unfolding fullArgs_def by (rule lookup_buildFullArgs_fixed)
  show ?thesis
    by (intro exI conjI) (rule run emitted heap field bare m t)+
qed


subsection \<open>The process of the examples\<close>

lemma demoWorld_eq:
  "demoWorld =
     \<lparr>loggerHeap =
        [\<lparr>Level = ''trace'', IsFatal = False\<rparr>, \<lparr>Level = ''debug'', IsFatal = False\<rparr>,
         \<lparr>Level = ''info'', IsFatal = False\<rparr>, \<lparr>Level = ''warn'', IsFatal = False\<rparr>,
         \<lparr>Level = ''error'', IsFatal = False\<rparr>, \<lparr>Level = ''fatal'', IsFatal = True\<rparr>],
      argsHeap = demoHeap, stdout = [],
      jsonWriter = Some \<lparr>escapeHTML = False, indentPrefix = [], indentValue = []\<rparr>,
      traceLogger = Some 0, debugLogger = Some 1, infoLogger = Some 2, warnLogger = Some 3,
      errorLogger = Some 4, fatalLogger = Some 5, loggerExeName = ''sms-auth-service''\<rparr>"
  by (simp add: demoWorld_def init_def zeroWorld_def newLogger_def Base_def IsPathSeparator_def)

lemma demoWorld_ready:
  "jsonWriter demoWorld = Some \<lparr>escapeHTML = False, indentPrefix = [], indentValue = []\<rparr>"
  "deref demoWorld (Trace demoWorld) = Some \<lparr>Level = ''trace'', IsFatal = False\<rparr>"
  "deref demoWorld (Debug demoWorld) = Some \<lparr>Level = ''debug'', IsFatal = False\<rparr>"
  "deref demoWorld (Info demoWorld) = Some \<lparr>Level = ''info'', IsFatal = False\<rparr>"
  "deref demoWorld (Warn demoWorld) = Some \<lparr>Level = ''warn'', IsFatal = False\<rparr>"
  "deref demoWorld (Error demoWorld) = Some \<lparr>Level = ''error'', IsFatal = False\<rparr>"
  "deref demoWorld (Fatal demoWorld) = Some \<lparr>Level = ''fatal'', IsFatal = True\<rparr>"
  by (simp_all add: demoWorld_eq deref_def Trace_def Debug_def Info_def Warn_def Error_def Fatal_def)

lemma demo_init:
  "init [''/usr/local/bin/sms-auth-service''] (zeroWorld demoHeap) = Inr demoWorld"
  by (simp add: demoWorld_def init_eq)

lemma demo_GetStackInfo: "GetStackInfo demoRuntime 2 = (''main.go'', ''ServeGrpc()'', ''59'')"
  by (simp add: GetStackInfo_def demoRuntime_def demoFrames_def Base_def IsPathSeparator_def
      Ext_def TrimLeft_def Int_go_def Itoa_def FormatInt_def formatBits_def formatDecimal.simps
      digits_def)




lemma demoHeap_1: "DAList.lookup (argsHeap demoWorld (Suc 0)) ''msg'' = Some ''shadow''"
  by (simp add: demoWorld_eq demoHeap_def)


lemma demo_render_saved:
  "renderMsg placeholderEngine demoWorld ''saved'' (Some (Suc 0)) = (demoWorld, ''saved'')"
  by (simp add: renderMsg_def placeholderEngine_def parseTemplate.simps textNode_def
      executeTemplate_def)

lemma demo_parse_unclosed: "Parse placeholderEngine ''{{'' = Inl unclosedAction"
  by (simp add: placeholderEngine_def parseTemplate.simps parseAction_def)

lemma demo_templateErr_unclosed:
  "templateErr placeholderEngine ''{{.user}} {{'' args = Some unclosedAction"
  by (simp add: templateErr_def placeholderEngine_def parseTemplate.simps parseAction_def
      isSpace_def isAlphaNumeric_def isDigit_def textNode_def)

lemma demo_templateErr_ok:
  "templateErr placeholderEngine ''hello {{.user}}'' args = None"
  by (simp add: templateErr_def placeholderEngine_def parseTemplate.simps parseAction_def
      isSpace_def isAlphaNumeric_def isDigit_def textNode_def executeTemplate_def)

lemma demo_nil_record:
  "fst (LogArgs demoRuntime placeholderEngine demoWorld (Info demoWorld) ''{{'' None) =
     demoWorld\<lparr>stdout := stdout demoWorld @
       [buildFullArgs demoRuntime demoWorld \<lparr>Level = ''info'', IsFatal = False\<rparr> ''{{'' ''{{''
          (''main.go'', ''ServeGrpc()'', ''59'') None None]\<rparr>"
  by (simp add: LogArgs_def logGenericArgs_nil[OF demoWorld_ready(1) demoWorld_ready(4)]
      demo_GetStackInfo)






section \<open>The properties of the specification\<close>

subsection \<open>Emission and termination\<close>



subsection \<open>The fields of the arguments\<close>

text \<open>
  C2: the fields made from the arguments never collide. Two distinct argument names give
  two distinct field names (putting \<open>arg_\<close> in front is injective), no such field name
  is one of the fixed names \<open>msg\<close>, \<open>msgTemplate\<close>, \<open>time\<close>, \<open>level\<close>, \<open>file\<close>, \<open>func\<close>,
  \<open>line\<close>, \<open>process\<close>, \<open>error\<close>, and so in the record every argument is found under its
  own prefixed name with its own value and every fixed field keeps the value the call
  gives it, whatever the arguments are called.
\<close>

theorem argument_fields_collision_free:
  assumes "jsonWriter w = Some enc" and "deref w logger = Some l"
  shows "\<exists>w' out fullArgs.
           logGenericArgs rt eng w logger msgTemplate err args stackDepth = (w', out)
         \<and> stdout w' = stdout w @ [fullArgs]
         \<and> (\<forall>k. DAList.lookup fullArgs (''arg_'' @ k) =
                  (case args of None \<Rightarrow> None | Some a \<Rightarrow> DAList.lookup (argsHeap w' a) k))
         \<and> (\<forall>k k'. (''arg_'' @ k = ''arg_'' @ k') = (k = k'))
         \<and> (\<forall>k. ''arg_'' @ k \<notin> set fixedFields)
         \<and> map (DAList.lookup fullArgs) fixedFields =
             [Some msgTemplate, Some (snd (renderMsg eng w msgTemplate args)), Some (Now rt),
              Some (Level l), Some (fst (GetStackInfo rt (stackDepth + 1))),
              Some (fst (snd (GetStackInfo rt (stackDepth + 1)))),
              Some (snd (snd (GetStackInfo rt (stackDepth + 1)))),
              Some (loggerExeName w), err]"
proof -
  obtain fl fn ln where info: "GetStackInfo rt (stackDepth + 1) = (fl, fn, ln)"
    by (cases "GetStackInfo rt (stackDepth + 1)")
  from logGenericArgs_record[OF assms info, of eng msgTemplate err args]
  obtain w' fullArgs where
    run: "logGenericArgs rt eng w logger msgTemplate err args stackDepth =
             (w', if IsFatal l then Panicked (PanicValue (snd (renderMsg eng w msgTemplate args)))
                  else Returned)"
    and out: "stdout w' = stdout w @ [fullArgs]"
    and fixed: "DAList.lookup fullArgs ''msgTemplate'' = Some msgTemplate"
      "DAList.lookup fullArgs ''msg'' = Some (snd (renderMsg eng w msgTemplate args))"
      "DAList.lookup fullArgs ''time'' = Some (Now rt)"
      "DAList.lookup fullArgs ''level'' = Some (Level l)"
      "DAList.lookup fullArgs ''file'' = Some fl"
      "DAList.lookup fullArgs ''func'' = Some fn"
      "DAList.lookup fullArgs ''line'' = Some ln"
      "DAList.lookup fullArgs ''process'' = Some (loggerExeName w)"
      "DAList.lookup fullArgs ''error'' = err"
    and dyn: "\<forall>k. DAList.lookup fullArgs (''arg_'' @ k) =
                  (case args of None \<Rightarrow> None | Some a \<Rightarrow> DAList.lookup (argsHeap w' a) k)"
    by (elim exE conjE) (rule that; assumption)
  have inj: "\<forall>k k'. (''arg_'' @ k = ''arg_'' @ k') = (k = k')" by simp
  have disj: "\<forall>k. ''arg_'' @ k \<notin> set fixedFields" by (simp add: fixedFields_def)
  have vals: "map (DAList.lookup fullArgs) fixedFields =
             [Some msgTemplate, Some (snd (renderMsg eng w msgTemplate args)), Some (Now rt),
              Some (Level l), Some (fst (GetStackInfo rt (stackDepth + 1))),
              Some (fst (snd (GetStackInfo rt (stackDepth + 1)))),
              Some (snd (snd (GetStackInfo rt (stackDepth + 1)))),
              Some (loggerExeName w), err]"
    using fixed by (simp add: fixedFields_def info)
  show ?thesis
    by (intro exI conjI) (rule run out dyn inj disj vals)+
qed

text \<open>
  An instance: an argument that is itself named \<open>msg\<close>.
\<close>

theorem argument_fields_collision_free_witness:
  "jsonWriter demoWorld = Some \<lparr>escapeHTML = False, indentPrefix = [], indentValue = []\<rparr>
   \<and> deref demoWorld (Info demoWorld) = Some \<lparr>Level = ''info'', IsFatal = False\<rparr>
   \<and> (\<exists>w' out fullArgs.
         logGenericArgs demoRuntime placeholderEngine demoWorld (Info demoWorld) ''saved'' None
           (Some 1) 1 = (w', out)
       \<and> stdout w' = stdout demoWorld @ [fullArgs]
       \<and> DAList.lookup (argsHeap w' 1) ''msg'' = Some ''shadow''
       \<and> DAList.lookup fullArgs ''arg_msg'' = Some ''shadow''
       \<and> DAList.lookup fullArgs ''msg'' = Some ''saved'')"
proof -
  from argument_fields_collision_free [OF demoWorld_ready(1) demoWorld_ready(4),
      of demoRuntime placeholderEngine "''saved''" None "Some 1" 1]
  obtain w' out fullArgs where
    run: "logGenericArgs demoRuntime placeholderEngine demoWorld (Info demoWorld) ''saved'' None
            (Some 1) 1 = (w', out)"
    and out: "stdout w' = stdout demoWorld @ [fullArgs]"
    and dyn: "\<forall>k. DAList.lookup fullArgs (''arg_'' @ k) =
                (case Some 1 of None \<Rightarrow> None | Some a \<Rightarrow> DAList.lookup (argsHeap w' a) k)"
    and vals: "map (DAList.lookup fullArgs) fixedFields =
             [Some ''saved'', Some (snd (renderMsg placeholderEngine demoWorld ''saved'' (Some 1))),
              Some (Now demoRuntime),
              Some (Level \<lparr>Level = ''info'', IsFatal = False\<rparr>),
              Some (fst (GetStackInfo demoRuntime (1 + 1))),
              Some (fst (snd (GetStackInfo demoRuntime (1 + 1)))),
              Some (snd (snd (GetStackInfo demoRuntime (1 + 1)))),
              Some (loggerExeName demoWorld), None]"
    by (elim exE conjE) (rule that; assumption)
  have "argsHeap w' = argsHeap demoWorld"
    using logGenericArgs_heap [OF demoWorld_ready(1) demoWorld_ready(4),
      of demoRuntime placeholderEngine "''saved''" None "Some 1" 1] run
    by (simp add: demo_render_saved)
  then have h: "DAList.lookup (argsHeap w' 1) ''msg'' = Some ''shadow''"
    by (simp add: demoHeap_1)
  have a: "DAList.lookup fullArgs ''arg_msg'' = Some ''shadow''"
    using dyn[rule_format, of "''msg''"] h by simp
  have "DAList.lookup fullArgs ''msg'' = Some (snd (renderMsg placeholderEngine demoWorld ''saved'' (Some 1)))"
    using vals by (simp add: fixedFields_def)
  then have m: "DAList.lookup fullArgs ''msg'' = Some ''saved''"
    by (simp add: demo_render_saved)
  show ?thesis
    by (intro exI conjI) (rule demoWorld_ready(1) demoWorld_ready(4) run out h a m)+
qed

subsection \<open>Templates\<close>

text \<open>
  C3, as it is stated, does not hold. It says: for any malformed template string (one that fails to parse), the
  logging call does not raise an error to the caller, the record has a diagnostic field
  with the message of the parse error, and \<open>msg\<close> is the raw template. This fails when
  no argument set is supplied: the string is then not parsed at all, and the record of
  \<open>LogArgs("{{", nil)\<close> has the eight fixed fields and nothing else.
\<close>

theorem malformed_template_without_args_counterexample:
  "Parse placeholderEngine ''{{'' = Inl unclosedAction
   \<and> DAList.impl_of (last (stdout (fst
        (LogArgs demoRuntime placeholderEngine demoWorld (Info demoWorld) ''{{'' None)))) =
      [(''msgTemplate'', ''{{''), (''msg'', ''{{''),
       (''time'', ''2006-01-02T15:04:05.123456789-07:00''), (''level'', ''info''),
       (''file'', ''main.go''), (''func'', ''ServeGrpc()''), (''line'', ''59''),
       (''process'', ''sms-auth-service'')]
   \<and> DAList.lookup (last (stdout (fst
        (LogArgs demoRuntime placeholderEngine demoWorld (Info demoWorld) ''{{'' None))))
        ''arg__templateErr'' = None"
proof -
  have r: "DAList.impl_of (last (stdout (fst
        (LogArgs demoRuntime placeholderEngine demoWorld (Info demoWorld) ''{{'' None)))) =
      [(''msgTemplate'', ''{{''), (''msg'', ''{{''),
       (''time'', ''2006-01-02T15:04:05.123456789-07:00''), (''level'', ''info''),
       (''file'', ''main.go''), (''func'', ''ServeGrpc()''), (''line'', ''59''),
       (''process'', ''sms-auth-service'')]"
    unfolding demo_nil_record
    by (simp add: buildFullArgs_def mapLiteral_def entries_def
        DAList.update.rep_eq DAList.empty.rep_eq demoRuntime_def demoWorld_eq)
  show ?thesis
    by (simp add: demo_parse_unclosed DAList.lookup.rep_eq r)
qed

text \<open>
  C3, for calls with an argument set: for any template that fails to parse, logged with an
  argument set that is not \<open>nil\<close>, the field \<open>arg__templateErr\<close> of the record holds the
  message of the parse error, \<open>msg\<close> is the raw template, and the failure raises nothing:
  the outcome is the one of every call, a normal return unless the handle is the fatal
  one.
\<close>

theorem malformed_template_with_args_is_reported:
  assumes "jsonWriter w = Some enc" and "deref w logger = Some l"
    and "Parse eng msgTemplate = Inl e"
  shows "\<exists>w' fullArgs.
           logGenericArgs rt eng w logger msgTemplate err (Some a) stackDepth =
             (w', if IsFatal l then Panicked (PanicValue msgTemplate) else Returned)
         \<and> stdout w' = stdout w @ [fullArgs]
         \<and> DAList.lookup fullArgs ''arg__templateErr'' = Some e
         \<and> DAList.lookup fullArgs ''msg'' = Some msgTemplate"
proof -
  have fail: "templateErr eng msgTemplate (argsHeap w a) = Some e"
    using assms(3) by (rule templateErr_parse)
  from logGenericArgs_failure[OF assms(1,2) fail, of rt err stackDepth]
  show ?thesis by (elim exE conjE) (intro exI conjI; assumption)
qed

theorem malformed_template_with_args_is_reported_witness:
  "jsonWriter demoWorld = Some \<lparr>escapeHTML = False, indentPrefix = [], indentValue = []\<rparr>
   \<and> deref demoWorld (Info demoWorld) = Some \<lparr>Level = ''info'', IsFatal = False\<rparr>
   \<and> Parse placeholderEngine ''{{'' = Inl unclosedAction
   \<and> (\<exists>w' fullArgs.
         logGenericArgs demoRuntime placeholderEngine demoWorld (Info demoWorld) ''{{'' None
           (Some 0) 1 = (w', Returned)
       \<and> stdout w' = stdout demoWorld @ [fullArgs]
       \<and> DAList.lookup fullArgs ''arg__templateErr'' = Some unclosedAction
       \<and> DAList.lookup fullArgs ''msg'' = Some ''{{'')"
  using demoWorld_ready(1,4) demo_parse_unclosed
    malformed_template_with_args_is_reported [OF demoWorld_ready(1) demoWorld_ready(4)
      demo_parse_unclosed, of demoRuntime None 0 1]
  by simp




text \<open>
  C5: for a plain message logged with no argument set (\<open>args\<close> is \<open>nil\<close>), rendering is
  the identity: \<open>msg\<close> and \<open>msgTemplate\<close> of the record are both exactly that string, no
  substitution is attempted (the template engine has no say: any other engine gives
  the same state and outcome), and the record has no field made from an argument (its
  keys are the eight fixed ones, and \<open>error\<close> when an error is given).
\<close>

theorem plain_message_is_logged_verbatim:
  assumes "jsonWriter w = Some enc" and "deref w logger = Some l"
  shows "\<exists>w' out fullArgs.
           logGenericArgs rt eng w logger msg err None stackDepth = (w', out)
         \<and> stdout w' = stdout w @ [fullArgs]
         \<and> DAList.lookup fullArgs ''msg'' = Some msg
         \<and> DAList.lookup fullArgs ''msgTemplate'' = Some msg
         \<and> (\<forall>k. DAList.lookup fullArgs (''arg_'' @ k) = None)
         \<and> map fst (DAList.impl_of fullArgs) =
             [''msgTemplate'', ''msg'', ''time'', ''level'', ''file'', ''func'', ''line'',
              ''process''] @ (case err of None \<Rightarrow> [] | Some e \<Rightarrow> [''error''])
         \<and> argsHeap w' = argsHeap w
         \<and> logGenericArgs rt \<lparr>Parse = parse', Execute = execute'\<rparr> w logger msg err None stackDepth
             = (w', out)"
proof -
  obtain fl fn ln where info: "GetStackInfo rt (stackDepth + 1) = (fl, fn, ln)"
    by (cases "GetStackInfo rt (stackDepth + 1)")
  define fullArgs where "fullArgs = buildFullArgs rt w l msg msg (fl, fn, ln) err None"
  define w' where "w' = w\<lparr>stdout := stdout w @ [fullArgs]\<rparr>"
  define out where "out = (if IsFatal l then Panicked (PanicValue msg) else Returned)"
  have run: "logGenericArgs rt eng w logger msg err None stackDepth = (w', out)"
    by (simp add: logGenericArgs_nil[OF assms] info w'_def fullArgs_def out_def)
  have run': "logGenericArgs rt \<lparr>Parse = parse', Execute = execute'\<rparr> w logger msg err None
      stackDepth = (w', out)"
    by (simp add: logGenericArgs_nil[OF assms] info w'_def fullArgs_def out_def)
  have emitted: "stdout w' = stdout w @ [fullArgs]" by (simp add: w'_def)
  have m: "DAList.lookup fullArgs ''msg'' = Some msg"
    unfolding fullArgs_def by (rule lookup_buildFullArgs_fixed)
  have t: "DAList.lookup fullArgs ''msgTemplate'' = Some msg"
    unfolding fullArgs_def by (rule lookup_buildFullArgs_fixed)
  have dyn: "\<forall>k. DAList.lookup fullArgs (''arg_'' @ k) = None"
    unfolding fullArgs_def using lookup_buildFullArgs_arg[of rt w l msg msg "(fl, fn, ln)" err None]
    by simp
  have keys: "map fst (DAList.impl_of fullArgs) =
             [''msgTemplate'', ''msg'', ''time'', ''level'', ''file'', ''func'', ''line'',
              ''process''] @ (case err of None \<Rightarrow> [] | Some e \<Rightarrow> [''error''])"
    unfolding fullArgs_def by (rule keys_buildFullArgs_nil)
  have heap: "argsHeap w' = argsHeap w" by (simp add: w'_def)
  show ?thesis
    by (intro exI conjI) (rule run emitted m t dyn keys heap run')+
qed

text \<open>
  An instance: a message that would not parse as a template is logged as it is.
\<close>

theorem plain_message_is_logged_verbatim_witness:
  "jsonWriter demoWorld = Some \<lparr>escapeHTML = False, indentPrefix = [], indentValue = []\<rparr>
   \<and> deref demoWorld (Warn demoWorld) = Some \<lparr>Level = ''warn'', IsFatal = False\<rparr>
   \<and> (\<exists>w' out fullArgs.
         logGenericArgs demoRuntime placeholderEngine demoWorld (Warn demoWorld)
           ''50% {{.done}'' None None 1 = (w', out)
       \<and> stdout w' = stdout demoWorld @ [fullArgs]
       \<and> DAList.lookup fullArgs ''msg'' = Some ''50% {{.done}''
       \<and> DAList.lookup fullArgs ''msgTemplate'' = Some ''50% {{.done}''
       \<and> map fst (DAList.impl_of fullArgs) =
             [''msgTemplate'', ''msg'', ''time'', ''level'', ''file'', ''func'', ''line'',
              ''process'']
       \<and> argsHeap w' = argsHeap demoWorld)"
proof -
  from plain_message_is_logged_verbatim [OF demoWorld_ready(1) demoWorld_ready(5),
      of demoRuntime placeholderEngine "''50% {{.done}''" None 1 parseTemplate executeTemplate]
  obtain w' out fullArgs where
    run: "logGenericArgs demoRuntime placeholderEngine demoWorld (Warn demoWorld)
           ''50% {{.done}'' None None 1 = (w', out)"
    and emitted: "stdout w' = stdout demoWorld @ [fullArgs]"
    and m: "DAList.lookup fullArgs ''msg'' = Some ''50% {{.done}''"
    and t: "DAList.lookup fullArgs ''msgTemplate'' = Some ''50% {{.done}''"
    and keys: "map fst (DAList.impl_of fullArgs) =
             [''msgTemplate'', ''msg'', ''time'', ''level'', ''file'', ''func'', ''line'',
              ''process''] @ (case None :: string option of None \<Rightarrow> [] | Some e \<Rightarrow> [''error''])"
    and heap: "argsHeap w' = argsHeap demoWorld"
    by (elim exE conjE) (rule that; assumption)
  have keys': "map fst (DAList.impl_of fullArgs) =
             [''msgTemplate'', ''msg'', ''time'', ''level'', ''file'', ''func'', ''line'',
              ''process'']"
    using keys by simp
  show ?thesis
    by (intro exI conjI) (rule demoWorld_ready(1) demoWorld_ready(5) run emitted m t keys' heap)+
qed

text \<open>
  C10: when parsing or executing the template fails, the map the caller supplied is
  itself changed: the key \<open>_templateErr\<close> is put into the map at the address the caller
  holds (no other map changes), and that entry is emitted under the prefixed name
  \<open>arg__templateErr\<close>, not under the bare name; when the template renders without
  failure, the maps are left as they were.
\<close>

theorem template_failure_is_written_into_the_callers_map:
  assumes "jsonWriter w = Some enc" and "deref w logger = Some l"
  shows "(templateErr eng msgTemplate (argsHeap w a) = Some e \<longrightarrow>
            (\<exists>w' out fullArgs.
               logGenericArgs rt eng w logger msgTemplate err (Some a) stackDepth = (w', out)
             \<and> stdout w' = stdout w @ [fullArgs]
             \<and> argsHeap w' = (argsHeap w)(a := DAList.update ''_templateErr'' e (argsHeap w a))
             \<and> DAList.lookup (argsHeap w' a) ''_templateErr'' = Some e
             \<and> DAList.lookup fullArgs ''arg__templateErr'' = Some e
             \<and> DAList.lookup fullArgs ''_templateErr'' = None))
       \<and> (templateErr eng msgTemplate (argsHeap w a) = None \<longrightarrow>
            argsHeap (fst (logGenericArgs rt eng w logger msgTemplate err (Some a) stackDepth))
              = argsHeap w)"
proof (intro conjI impI)
  assume fail: "templateErr eng msgTemplate (argsHeap w a) = Some e"
  from logGenericArgs_failure[OF assms fail, of rt err stackDepth]
  obtain w' fullArgs where
    run: "logGenericArgs rt eng w logger msgTemplate err (Some a) stackDepth =
             (w', if IsFatal l then Panicked (PanicValue msgTemplate) else Returned)"
    and emitted: "stdout w' = stdout w @ [fullArgs]"
    and heap: "argsHeap w' = (argsHeap w)(a := DAList.update ''_templateErr'' e (argsHeap w a))"
    and field: "DAList.lookup fullArgs ''arg__templateErr'' = Some e"
    and bare: "DAList.lookup fullArgs ''_templateErr'' = None"
    by (elim exE conjE) (rule that; assumption)
  have entry: "DAList.lookup (argsHeap w' a) ''_templateErr'' = Some e"
    by (simp add: heap)
  show "\<exists>w' out fullArgs.
               logGenericArgs rt eng w logger msgTemplate err (Some a) stackDepth = (w', out)
             \<and> stdout w' = stdout w @ [fullArgs]
             \<and> argsHeap w' = (argsHeap w)(a := DAList.update ''_templateErr'' e (argsHeap w a))
             \<and> DAList.lookup (argsHeap w' a) ''_templateErr'' = Some e
             \<and> DAList.lookup fullArgs ''arg__templateErr'' = Some e
             \<and> DAList.lookup fullArgs ''_templateErr'' = None"
    by (intro exI conjI) (rule run emitted heap entry field bare)+
next
  assume ok: "templateErr eng msgTemplate (argsHeap w a) = None"
  have "fst (renderMsg eng w msgTemplate (Some a)) = w"
    using ok by (rule renderMsg_no_failure)
  then show "argsHeap (fst (logGenericArgs rt eng w logger msgTemplate err (Some a) stackDepth))
              = argsHeap w"
    by (simp add: logGenericArgs_heap[OF assms])
qed

theorem template_failure_is_written_into_the_callers_map_witness:
  "jsonWriter demoWorld = Some \<lparr>escapeHTML = False, indentPrefix = [], indentValue = []\<rparr>
   \<and> deref demoWorld (Info demoWorld) = Some \<lparr>Level = ''info'', IsFatal = False\<rparr>
   \<and> templateErr placeholderEngine ''{{.user}} {{'' (argsHeap demoWorld 0) = Some unclosedAction
   \<and> (\<exists>w' out fullArgs.
         logGenericArgs demoRuntime placeholderEngine demoWorld (Info demoWorld)
           ''{{.user}} {{'' None (Some 0) 1 = (w', out)
       \<and> stdout w' = stdout demoWorld @ [fullArgs]
       \<and> argsHeap w' = (argsHeap demoWorld)
            (0 := DAList.update ''_templateErr'' unclosedAction (argsHeap demoWorld 0))
       \<and> DAList.lookup (argsHeap w' 0) ''_templateErr'' = Some unclosedAction
       \<and> DAList.lookup fullArgs ''arg__templateErr'' = Some unclosedAction
       \<and> DAList.lookup fullArgs ''_templateErr'' = None)
   \<and> templateErr placeholderEngine ''hello {{.user}}'' (argsHeap demoWorld 0) = None
   \<and> argsHeap (fst (logGenericArgs demoRuntime placeholderEngine demoWorld (Info demoWorld)
         ''hello {{.user}}'' None (Some 0) 1)) = argsHeap demoWorld"
proof -
  note fail = template_failure_is_written_into_the_callers_map
    [OF demoWorld_ready(1) demoWorld_ready(4),
      of placeholderEngine "''{{.user}} {{''" 0 unclosedAction demoRuntime None 1,
      THEN conjunct1, rule_format, OF demo_templateErr_unclosed]
  note ok = template_failure_is_written_into_the_callers_map
    [OF demoWorld_ready(1) demoWorld_ready(4),
      of placeholderEngine "''hello {{.user}}''" 0 unclosedAction demoRuntime None 1,
      THEN conjunct2, rule_format, OF demo_templateErr_ok]
  show ?thesis
    by (intro conjI) (rule demoWorld_ready(1) demoWorld_ready(4) demo_templateErr_unclosed
        demo_templateErr_ok fail ok)+
qed

subsection \<open>The error field\<close>

text \<open>
  C6: for every logging call, the record has the field \<open>error\<close> if and only if an error
  that is not \<open>nil\<close> was supplied; when it is there its value is the text of the error,
  and otherwise the record has no entry under that key at all.
\<close>

theorem error_field_present_iff_error_supplied:
  assumes "jsonWriter w = Some enc" and "deref w logger = Some l"
  shows "\<exists>w' out fullArgs.
           logGenericArgs rt eng w logger msgTemplate err args stackDepth = (w', out)
         \<and> stdout w' = stdout w @ [fullArgs]
         \<and> DAList.lookup fullArgs ''error'' = err
         \<and> (''error'' \<in> fst ` set (DAList.impl_of fullArgs) \<longleftrightarrow> err \<noteq> None)"
proof -
  obtain fl fn ln where info: "GetStackInfo rt (stackDepth + 1) = (fl, fn, ln)"
    by (cases "GetStackInfo rt (stackDepth + 1)")
  from logGenericArgs_record[OF assms info, of eng msgTemplate err args]
  obtain w' fullArgs where
    run: "logGenericArgs rt eng w logger msgTemplate err args stackDepth =
             (w', if IsFatal l then Panicked (PanicValue (snd (renderMsg eng w msgTemplate args)))
                  else Returned)"
    and out: "stdout w' = stdout w @ [fullArgs]"
    and e: "DAList.lookup fullArgs ''error'' = err"
    by blast
  have "(''error'' \<in> fst ` set (DAList.impl_of fullArgs)) = (DAList.lookup fullArgs ''error'' \<noteq> None)"
    by (simp add: DAList.lookup.rep_eq map_of_eq_None_iff)
  then show ?thesis using run out e by auto
qed

theorem error_field_present_iff_error_supplied_witness:
  "jsonWriter demoWorld = Some \<lparr>escapeHTML = False, indentPrefix = [], indentValue = []\<rparr>
   \<and> deref demoWorld (Error demoWorld) = Some \<lparr>Level = ''error'', IsFatal = False\<rparr>
   \<and> (\<exists>w' out fullArgs.
         logGenericArgs demoRuntime placeholderEngine demoWorld (Error demoWorld)
           ''write failed'' (Some ''EIO'') None 1 = (w', out)
       \<and> stdout w' = stdout demoWorld @ [fullArgs]
       \<and> DAList.lookup fullArgs ''error'' = Some ''EIO''
       \<and> ''error'' \<in> fst ` set (DAList.impl_of fullArgs))
   \<and> (\<exists>w' out fullArgs.
         logGenericArgs demoRuntime placeholderEngine demoWorld (Error demoWorld)
           ''write failed'' None None 1 = (w', out)
       \<and> stdout w' = stdout demoWorld @ [fullArgs]
       \<and> DAList.lookup fullArgs ''error'' = None
       \<and> ''error'' \<notin> fst ` set (DAList.impl_of fullArgs))"
  using demoWorld_ready(1,6)
    error_field_present_iff_error_supplied [OF demoWorld_ready(1) demoWorld_ready(6),
      of demoRuntime placeholderEngine "''write failed''" "Some ''EIO''" None 1]
    error_field_present_iff_error_supplied [OF demoWorld_ready(1) demoWorld_ready(6),
      of demoRuntime placeholderEngine "''write failed''" None None 1]
  by simp

subsection \<open>The stack inspector\<close>



subsection \<open>The level registry\<close>

text \<open>
  C8: \<open>init\<close> creates exactly six level handles, with the severity names \<open>trace\<close>,
  \<open>debug\<close>, \<open>info\<close>, \<open>warn\<close>, \<open>error\<close>, \<open>fatal\<close>, at six different addresses; only the
  fatal handle has the fatal flag set. Each of the six accessors returns the pointer
  held by its package variable, and a logging call, from any state, changes neither the
  \<open>Logger\<close> objects nor these variables: every call of an accessor returns the same
  shared handle, and no handle is changed after it was built.
\<close>

theorem six_shared_level_handles:
  assumes "init osArgs (zeroWorld heap) = Inr w"
  shows "map (deref w) [Trace w, Debug w, Info w, Warn w, Error w, Fatal w] =
           [Some \<lparr>Level = ''trace'', IsFatal = False\<rparr>, Some \<lparr>Level = ''debug'', IsFatal = False\<rparr>,
            Some \<lparr>Level = ''info'', IsFatal = False\<rparr>, Some \<lparr>Level = ''warn'', IsFatal = False\<rparr>,
            Some \<lparr>Level = ''error'', IsFatal = False\<rparr>, Some \<lparr>Level = ''fatal'', IsFatal = True\<rparr>]
       \<and> distinct [Trace w, Debug w, Info w, Warn w, Error w, Fatal w]
       \<and> length (loggerHeap w) = 6
       \<and> (\<forall>p lg. deref w p = Some lg \<longrightarrow> (IsFatal lg \<longleftrightarrow> p = Fatal w))
       \<and> loggerHeap (fst (logGenericArgs rt eng v logger msgTemplate err args stackDepth))
           = loggerHeap v
       \<and> map (\<lambda>accessor. accessor
                (fst (logGenericArgs rt eng v logger msgTemplate err args stackDepth)))
             [Trace, Debug, Info, Warn, Error, Fatal]
           = map (\<lambda>accessor. accessor v) [Trace, Debug, Info, Warn, Error, Fatal]"
proof -
  obtain arg0 rest where args: "osArgs = arg0 # rest"
    using assms by (cases osArgs) (simp_all add: init_no_args)
  have w: "w =
     \<lparr>loggerHeap =
        [\<lparr>Level = ''trace'', IsFatal = False\<rparr>, \<lparr>Level = ''debug'', IsFatal = False\<rparr>,
         \<lparr>Level = ''info'', IsFatal = False\<rparr>, \<lparr>Level = ''warn'', IsFatal = False\<rparr>,
         \<lparr>Level = ''error'', IsFatal = False\<rparr>, \<lparr>Level = ''fatal'', IsFatal = True\<rparr>],
      argsHeap = heap, stdout = [],
      jsonWriter = Some \<lparr>escapeHTML = False, indentPrefix = [], indentValue = []\<rparr>,
      traceLogger = Some 0, debugLogger = Some 1, infoLogger = Some 2, warnLogger = Some 3,
      errorLogger = Some 4, fatalLogger = Some 5, loggerExeName = Base arg0\<rparr>"
    using assms unfolding args init_eq by simp
  have handles: "map (deref w) [Trace w, Debug w, Info w, Warn w, Error w, Fatal w] =
           [Some \<lparr>Level = ''trace'', IsFatal = False\<rparr>, Some \<lparr>Level = ''debug'', IsFatal = False\<rparr>,
            Some \<lparr>Level = ''info'', IsFatal = False\<rparr>, Some \<lparr>Level = ''warn'', IsFatal = False\<rparr>,
            Some \<lparr>Level = ''error'', IsFatal = False\<rparr>, Some \<lparr>Level = ''fatal'', IsFatal = True\<rparr>]"
    by (simp add: w deref_def Trace_def Debug_def Info_def Warn_def Error_def Fatal_def)
  have dist: "distinct [Trace w, Debug w, Info w, Warn w, Error w, Fatal w]"
    by (simp add: w Trace_def Debug_def Info_def Warn_def Error_def Fatal_def)
  have six: "length (loggerHeap w) = 6" by (simp add: w)
  have fatal: "\<forall>p lg. deref w p = Some lg \<longrightarrow> (IsFatal lg \<longleftrightarrow> p = Fatal w)"
  proof (intro allI impI)
    fix p lg
    assume d: "deref w p = Some lg"
    then obtain a where p: "p = Some a" and a: "a < 6"
      and lg: "lg = loggerHeap w ! a"
      by (cases p) (auto simp: deref_def six split: if_splits)
    from a have "a = 0 \<or> a = 1 \<or> a = 2 \<or> a = 3 \<or> a = 4 \<or> a = 5" by arith
    then show "IsFatal lg \<longleftrightarrow> p = Fatal w"
      by (auto simp: lg p w Fatal_def)
  qed
  have heap: "loggerHeap (fst (logGenericArgs rt eng v logger msgTemplate err args stackDepth))
           = loggerHeap v"
    by (rule logGenericArgs_frame)
  have same: "map (\<lambda>accessor. accessor
                (fst (logGenericArgs rt eng v logger msgTemplate err args stackDepth)))
             [Trace, Debug, Info, Warn, Error, Fatal]
           = map (\<lambda>accessor. accessor v) [Trace, Debug, Info, Warn, Error, Fatal]"
    by (simp add: Trace_def Debug_def Info_def Warn_def Error_def Fatal_def logGenericArgs_frame)
  show ?thesis
    by (intro conjI) (rule handles dist six fatal heap same)+
qed

theorem six_shared_level_handles_witness:
  "init [''/usr/local/bin/sms-auth-service''] (zeroWorld demoHeap) = Inr demoWorld
   \<and> map (deref demoWorld)
       [Trace demoWorld, Debug demoWorld, Info demoWorld, Warn demoWorld, Error demoWorld,
        Fatal demoWorld] =
           [Some \<lparr>Level = ''trace'', IsFatal = False\<rparr>, Some \<lparr>Level = ''debug'', IsFatal = False\<rparr>,
            Some \<lparr>Level = ''info'', IsFatal = False\<rparr>, Some \<lparr>Level = ''warn'', IsFatal = False\<rparr>,
            Some \<lparr>Level = ''error'', IsFatal = False\<rparr>, Some \<lparr>Level = ''fatal'', IsFatal = True\<rparr>]
   \<and> distinct [Trace demoWorld, Debug demoWorld, Info demoWorld, Warn demoWorld,
        Error demoWorld, Fatal demoWorld]
   \<and> length (loggerHeap demoWorld) = 6
   \<and> deref demoWorld (Info demoWorld) = Some \<lparr>Level = ''info'', IsFatal = False\<rparr>
   \<and> Info demoWorld \<noteq> Fatal demoWorld
   \<and> Info (fst (Log demoRuntime placeholderEngine demoWorld (Info demoWorld) ''ready''))
       = Info demoWorld"
proof -
  note inst = six_shared_level_handles [OF demo_init,
      of demoRuntime placeholderEngine demoWorld "Info demoWorld" "''ready''" None None 1]
  have "map (\<lambda>accessor. accessor
                (fst (logGenericArgs demoRuntime placeholderEngine demoWorld (Info demoWorld)
                   ''ready'' None None 1)))
             [Trace, Debug, Info, Warn, Error, Fatal]
           = map (\<lambda>accessor. accessor demoWorld) [Trace, Debug, Info, Warn, Error, Fatal]"
    using inst by (elim conjE)
  then have same: "Info (fst (Log demoRuntime placeholderEngine demoWorld (Info demoWorld) ''ready''))
       = Info demoWorld"
    by (simp add: Log_def)
  have "\<forall>p lg. deref demoWorld p = Some lg \<longrightarrow> (IsFatal lg \<longleftrightarrow> p = Fatal demoWorld)"
    using inst by (elim conjE)
  then have "IsFatal \<lparr>Level = ''info'', IsFatal = False\<rparr> \<longleftrightarrow> Info demoWorld = Fatal demoWorld"
    using demoWorld_ready(4) by (elim allE impE)
  then have other: "Info demoWorld \<noteq> Fatal demoWorld" by simp
  show ?thesis
    by (intro conjI) (rule demo_init inst[THEN conjunct1] inst[THEN conjunct2, THEN conjunct1]
        inst[THEN conjunct2, THEN conjunct2, THEN conjunct1] demoWorld_ready(4) other same)+
qed

end
